theory Spec2Isabelle
  imports Complex_Main "HOL-Library.AList"
begin

section \<open>The teleoperation panel of \<open>src/App.jsx\<close>\<close>

text \<open>
  The component keeps React state (\<open>useState\<close>), mutable references (\<open>useRef\<close>) and
  talks to a rosbridge topic. The model is a record of that state, one function per
  handler of the source, and a step function that runs a handler and then the effects
  whose dependencies changed. JavaScript numbers are modelled as reals: finite doubles
  without rounding; \<open>NaN\<close> and the infinities are outside the model.
\<close>

subsection \<open>Numbers and objects\<close>

text \<open>\<open>const clamp = (v, min, max) => Math.min(max, Math.max(min, v))\<close>\<close>

definition clamp :: "real \<Rightarrow> real \<Rightarrow> real \<Rightarrow> real" where
  "clamp v mn mx = min mx (max mn v)"

text \<open>
  A message is a JavaScript object: an ordered list of properties, each a number or
  again an object. Setting a property that exists replaces its value in place, a new
  one is appended (\<open>AList.update\<close>); spreading a number yields no property.
\<close>

datatype jsval = Num real | Obj "(string \<times> jsval) list"

fun props :: "jsval \<Rightarrow> (string \<times> jsval) list" where
  "props (Obj ps) = ps"
| "props (Num r) = []"

definition get_prop :: "jsval \<Rightarrow> string \<Rightarrow> jsval option" where
  "get_prop v k = map_of (props v) k"

definition prop_names :: "jsval \<Rightarrow> string list" where
  "prop_names v = map fst (props v)"

text \<open>The path \<open>v.a.b\<close> of two property reads; \<open>None\<close> where JavaScript gives undefined
  or throws.\<close>

definition prop2 :: "jsval \<Rightarrow> string \<Rightarrow> string \<Rightarrow> jsval option" where
  "prop2 v a b = (case get_prop v a of None \<Rightarrow> None | Some w \<Rightarrow> get_prop w b)"

definition vec3 :: "real \<Rightarrow> real \<Rightarrow> real \<Rightarrow> jsval" where
  "vec3 a b c = Obj [(''x'', Num a), (''y'', Num b), (''z'', Num c)]"

definition twistTemplate :: jsval where
  "twistTemplate = Obj [(''linear'', vec3 0 0 0), (''angular'', vec3 0 0 0)]"

text \<open>The object literal of \<open>publishTwist\<close>:
  \<open>{ ...twistTemplate, linear: {x: linX, y: 0, z: 0}, angular: {x: 0, y: 0, z: angZ} }\<close>\<close>

definition twist_msg :: "real \<Rightarrow> real \<Rightarrow> jsval" where
  "twist_msg linX angZ =
     Obj (AList.update ''angular'' (vec3 0 0 angZ)
           (AList.update ''linear'' (vec3 linX 0 0) (props twistTemplate)))"

subsection \<open>State\<close>

text \<open>
  \<open>ros\<close> is the object made by \<open>new ROSLIB.Ros({ url: wsUrl })\<close> in \<open>connect\<close>; the
  handlers registered on it close over the \<open>topicName\<close> of the render in which
  \<open>connect\<close> ran, kept here as \<open>cb_topicName\<close>. \<open>topic\<close> is a \<open>ROSLIB.Topic\<close>.
\<close>

record ros =
  url :: string
  cb_topicName :: string

record topic =
  topic_ros :: ros
  name :: string
  messageType :: string

text \<open>\<open>axesRef.current\<close> is \<open>{ x, y }\<close>; the fields are called \<open>ax\<close> and \<open>ay\<close> here.\<close>

record axes =
  ax :: real
  ay :: real

text \<open>The status line shows one of five fixed texts (Turkish in the source).\<close>

datatype status = NotConnected | Connecting | Connected | ConnectionClosed | ConnectionError

datatype mode = Joystick | Buttons

text \<open>
  The fields follow the declarations at the top of \<open>App\<close>. \<open>timerRef\<close> is null or holds
  the installed interval, kept as its period (ms), \<open>timeouts\<close> the delays (ms) of the pending
  \<open>setTimeout(() => publishTwist(0, 0), d)\<close> callbacks, and \<open>published\<close> is the log of
  \<open>topic.publish(msg)\<close> calls, oldest first.
\<close>

record app =
  wsUrl :: string
  topicName :: string
  isConnected :: bool
  statusText :: status
  errorText :: string
  linearMax :: real
  angularMax :: real
  estop :: bool
  showSettings :: bool
  controlMode :: mode
  rosRef :: "ros option"
  cmdVelTopicRef :: "topic option"
  axesRef :: axes
  timerRef :: "nat option"
  timeouts :: "nat list"
  published :: "(topic \<times> jsval) list"

text \<open>The state after mounting, for a page served from \<open>host\<close> (\<open>guessWsUrl\<close>): the
  timer effect has installed the interval; the topic effect returned at its guard.\<close>

definition guessWsUrl :: "string \<Rightarrow> string" where
  "guessWsUrl hostname =
     ''ws://'' @ (if hostname = [] then ''localhost'' else hostname) @ '':9090''"

definition init :: "string \<Rightarrow> app" where
  "init hostname =
     \<lparr> wsUrl = guessWsUrl hostname, topicName = ''/cmd_vel'', isConnected = False,
       statusText = NotConnected, errorText = [], linearMax = 0.6, angularMax = 1.2,
       estop = False, showSettings = False, controlMode = Joystick,
       rosRef = None, cmdVelTopicRef = None, axesRef = \<lparr> ax = 0, ay = 0 \<rparr>,
       timerRef = Some 50, timeouts = [], published = [] \<rparr>"

subsection \<open>Functions of the component\<close>

definition publishTwist :: "real \<Rightarrow> real \<Rightarrow> app \<Rightarrow> app" where
  "publishTwist linX angZ s =
     (case cmdVelTopicRef s of
        None \<Rightarrow> s
      | Some t \<Rightarrow> s\<lparr> published := published s @ [(t, twist_msg linX angZ)] \<rparr>)"

definition safeStop :: "app \<Rightarrow> app" where
  "safeStop s =
     (let s1 = s\<lparr> axesRef := \<lparr> ax = 0, ay = 0 \<rparr> \<rparr>;
          s2 = publishTwist 0 0 s1
      in s2\<lparr> timeouts := timeouts s2 @ [80, 160] \<rparr>)"

definition disconnect :: "app \<Rightarrow> app" where
  "disconnect s =
     s\<lparr> timerRef := None, cmdVelTopicRef := None, rosRef := None,
        isConnected := False, statusText := NotConnected \<rparr>"

text \<open>\<open>connect\<close>; \<open>ok\<close> tells whether \<open>new ROSLIB.Ros\<close> returned an object (it throws on
  a URL the WebSocket constructor rejects, and the handler ends there).\<close>

definition connect :: "bool \<Rightarrow> app \<Rightarrow> app" where
  "connect ok s =
     (let s1 = disconnect s;
          s2 = s1\<lparr> statusText := Connecting, errorText := [] \<rparr>
      in if ok then s2\<lparr> rosRef := Some \<lparr> url = wsUrl s, cb_topicName = topicName s \<rparr> \<rparr>
         else s2)"

text \<open>The three handlers registered in \<open>connect\<close>, run on the object \<open>r\<close> they close over.\<close>

definition on_connection :: "ros \<Rightarrow> app \<Rightarrow> app" where
  "on_connection r s =
     s\<lparr> isConnected := True, statusText := Connected,
        cmdVelTopicRef := Some \<lparr> topic_ros = r, name = cb_topicName r,
                                 messageType = ''geometry_msgs/Twist'' \<rparr> \<rparr>"

definition on_close :: "app \<Rightarrow> app" where
  "on_close s = safeStop (s\<lparr> isConnected := False, statusText := ConnectionClosed \<rparr>)"

text \<open>\<open>err\<close> is the text \<open>prettyErr\<close> made of the error.\<close>

definition on_error :: "string \<Rightarrow> app \<Rightarrow> app" where
  "on_error err s =
     safeStop (s\<lparr> isConnected := False, statusText := ConnectionError, errorText := err \<rparr>)"

text \<open>The joystick manager's handlers.\<close>

definition on_move :: "real \<Rightarrow> real \<Rightarrow> app \<Rightarrow> app" where
  "on_move vx vy s =
     (let x = clamp vx (- 1) 1;
          y = clamp vy (- 1) 1
      in s\<lparr> axesRef := \<lparr> ax = x, ay = - y \<rparr> \<rparr>)"

definition on_end :: "app \<Rightarrow> app" where
  "on_end s = publishTwist 0 0 (s\<lparr> axesRef := \<lparr> ax = 0, ay = 0 \<rparr> \<rparr>)"

text \<open>The callback of \<open>setInterval(..., 50)\<close>.\<close>

definition tick :: "app \<Rightarrow> app" where
  "tick s =
     (if \<not> isConnected s then s
      else if estop s then publishTwist 0 0 s
      else
        let x = ax (axesRef s);
            y = ay (axesRef s);
            lin = clamp (y * linearMax s) (- linearMax s) (linearMax s);
            ang = clamp (x * angularMax s) (- angularMax s) (angularMax s)
        in publishTwist lin ang s)"

text \<open>The body of the effect on \<open>[topicName]\<close>.\<close>

definition topicName_effect :: "app \<Rightarrow> app" where
  "topicName_effect s =
     (case rosRef s of
        None \<Rightarrow> s
      | Some r \<Rightarrow>
          if \<not> isConnected s then s
          else safeStop (s\<lparr> cmdVelTopicRef :=
                 Some \<lparr> topic_ros = r, name = topicName s,
                        messageType = ''geometry_msgs/Twist'' \<rparr> \<rparr>))"

text \<open>The eight direction buttons, in the order of the grid, and the vector each stores
  on pointer down.\<close>

datatype dir = UpLeft | Up | UpRight | Left | Right | DownLeft | Down | DownRight

fun dir_axes :: "dir \<Rightarrow> axes" where
  "dir_axes UpLeft = \<lparr> ax = - 0.7, ay = 1 \<rparr>"
| "dir_axes Up = \<lparr> ax = 0, ay = 1 \<rparr>"
| "dir_axes UpRight = \<lparr> ax = 0.7, ay = 1 \<rparr>"
| "dir_axes Left = \<lparr> ax = - 1, ay = 0 \<rparr>"
| "dir_axes Right = \<lparr> ax = 1, ay = 0 \<rparr>"
| "dir_axes DownLeft = \<lparr> ax = - 0.7, ay = - 1 \<rparr>"
| "dir_axes Down = \<lparr> ax = 0, ay = - 1 \<rparr>"
| "dir_axes DownRight = \<lparr> ax = 0.7, ay = - 1 \<rparr>"

definition onPointerDown :: "dir \<Rightarrow> app \<Rightarrow> app" where
  "onPointerDown d s = s\<lparr> axesRef := dir_axes d \<rparr>"

text \<open>\<open>onPointerUp\<close>, \<open>onPointerLeave\<close> and the click of the centre button have the same
  body in the source, for every button.\<close>

definition onPointerUp :: "dir \<Rightarrow> app \<Rightarrow> app" where
  "onPointerUp d s = publishTwist 0 0 (s\<lparr> axesRef := \<lparr> ax = 0, ay = 0 \<rparr> \<rparr>)"

definition onPointerLeave :: "dir \<Rightarrow> app \<Rightarrow> app" where
  "onPointerLeave d s = publishTwist 0 0 (s\<lparr> axesRef := \<lparr> ax = 0, ay = 0 \<rparr> \<rparr>)"

definition stop_click :: "app \<Rightarrow> app" where
  "stop_click s = publishTwist 0 0 (s\<lparr> axesRef := \<lparr> ax = 0, ay = 0 \<rparr> \<rparr>)"

definition estop_click :: "app \<Rightarrow> app" where
  "estop_click s = safeStop (s\<lparr> estop := True \<rparr>)"

definition estop_release_click :: "app \<Rightarrow> app" where
  "estop_release_click s = safeStop (s\<lparr> estop := False \<rparr>)"

definition disconnect_click :: "app \<Rightarrow> app" where
  "disconnect_click s = safeStop (disconnect s)"

definition select_buttons :: "app \<Rightarrow> app" where
  "select_buttons s = safeStop (s\<lparr> controlMode := Buttons \<rparr>)"

text \<open>A pending timeout fires: its callback is \<open>publishTwist(0, 0)\<close>. All pending
  callbacks are the same, so the model fires the oldest.\<close>

definition timeout_fires :: "app \<Rightarrow> app" where
  "timeout_fires s =
     (case timeouts s of
        [] \<Rightarrow> s
      | d # ds \<Rightarrow> publishTwist 0 0 (s\<lparr> timeouts := ds \<rparr>))"

subsection \<open>Events and steps\<close>

text \<open>
  One event is one callback the browser, the joystick widget, the socket or a timer
  runs. The socket events reach the handlers of the object in \<open>rosRef\<close>; \<open>close\<close> and
  \<open>error\<close> may also come from an object that \<open>disconnect\<close> has dropped. The centre
  button is disabled under e-stop, so its click is not delivered then; every other
  callback is allowed at any time, which covers at least what the page can do.
\<close>

datatype event =
    Tick
  | Timeout
  | JoyMove real real
  | JoyEnd
  | PointerDown dir
  | PointerUp dir
  | PointerLeave dir
  | StopClick
  | EstopClick
  | EstopReleaseClick
  | ConnectClick bool
  | DisconnectClick
  | RosConnection
  | RosClose
  | RosError string
  | SetWsUrl string
  | SetTopicName string
  | SetLinearMax real
  | SetAngularMax real
  | SelectJoystick
  | SelectButtons
  | ToggleSettings

fun handler :: "event \<Rightarrow> app \<Rightarrow> app" where
  "handler Tick s = (case timerRef s of None \<Rightarrow> s | Some period \<Rightarrow> tick s)"
| "handler Timeout s = timeout_fires s"
| "handler (JoyMove vx vy) s = on_move vx vy s"
| "handler JoyEnd s = on_end s"
| "handler (PointerDown d) s = onPointerDown d s"
| "handler (PointerUp d) s = onPointerUp d s"
| "handler (PointerLeave d) s = onPointerLeave d s"
| "handler StopClick s = (if estop s then s else stop_click s)"
| "handler EstopClick s = estop_click s"
| "handler EstopReleaseClick s = estop_release_click s"
| "handler (ConnectClick ok) s = connect ok s"
| "handler DisconnectClick s = disconnect_click s"
| "handler RosConnection s = (case rosRef s of None \<Rightarrow> s | Some r \<Rightarrow> on_connection r s)"
| "handler RosClose s = on_close s"
| "handler (RosError err) s = on_error err s"
| "handler (SetWsUrl u) s = s\<lparr> wsUrl := u \<rparr>"
| "handler (SetTopicName n) s = s\<lparr> topicName := n \<rparr>"
| "handler (SetLinearMax v) s = s\<lparr> linearMax := v \<rparr>"
| "handler (SetAngularMax v) s = s\<lparr> angularMax := v \<rparr>"
| "handler SelectJoystick s = s\<lparr> controlMode := Joystick \<rparr>"
| "handler SelectButtons s = select_buttons s"
| "handler ToggleSettings s = s\<lparr> showSettings := \<not> showSettings s \<rparr>"

text \<open>
  After a handler React renders and runs the effects whose dependencies changed:
  the timer effect on \<open>[isConnected, estop, linearMax, angularMax]\<close> clears the old
  interval and installs a new one of 50 ms, whose callback closes over the new values; the
  topic effect on \<open>[topicName]\<close> runs \<open>topicName_effect\<close>.
\<close>

definition timer_deps :: "app \<Rightarrow> bool \<times> bool \<times> real \<times> real" where
  "timer_deps s = (isConnected s, estop s, linearMax s, angularMax s)"

definition commit :: "app \<Rightarrow> app \<Rightarrow> app" where
  "commit old new =
     (let s1 = (if timer_deps new \<noteq> timer_deps old then new\<lparr> timerRef := Some 50 \<rparr> else new)
      in if topicName new \<noteq> topicName old then topicName_effect s1 else s1)"

definition step :: "event \<Rightarrow> app \<Rightarrow> app" where
  "step e s = commit s (handler e s)"

fun run :: "app \<Rightarrow> event list \<Rightarrow> app" where
  "run s [] = s"
| "run s (e # es) = run (step e s) es"

subsection \<open>Predicates on messages and states\<close>

fun is_num :: "jsval \<Rightarrow> bool" where
  "is_num (Num r) = True"
| "is_num (Obj ps) = False"

text \<open>An object with exactly the numeric properties \<open>x\<close>, \<open>y\<close>, \<open>z\<close>, in this order.\<close>

definition is_vec3 :: "jsval option \<Rightarrow> bool" where
  "is_vec3 w =
     (case w of
        None \<Rightarrow> False
      | Some v \<Rightarrow> prop_names v = [''x'', ''y'', ''z''] \<and> list_all is_num (map snd (props v)))"

definition is_twist :: "jsval \<Rightarrow> bool" where
  "is_twist m =
     (prop_names m = [''linear'', ''angular'']
      \<and> is_vec3 (get_prop m ''linear'') \<and> is_vec3 (get_prop m ''angular''))"

definition side_fields_zero :: "jsval \<Rightarrow> bool" where
  "side_fields_zero m =
     (prop2 m ''linear'' ''y'' = Some (Num 0) \<and> prop2 m ''linear'' ''z'' = Some (Num 0)
      \<and> prop2 m ''angular'' ''x'' = Some (Num 0) \<and> prop2 m ''angular'' ''y'' = Some (Num 0))"

definition msg_ok :: "topic \<times> jsval \<Rightarrow> bool" where
  "msg_ok p =
     (messageType (fst p) = ''geometry_msgs/Twist'' \<and> is_twist (snd p) \<and> side_fields_zero (snd p))"

definition msgs_inv :: "app \<Rightarrow> bool" where
  "msgs_inv s =
     ((case cmdVelTopicRef s of
         None \<Rightarrow> True
       | Some t \<Rightarrow> messageType t = ''geometry_msgs/Twist'')
      \<and> list_all msg_ok (published s))"

text \<open>Every entry of a list of published messages is the zero twist.\<close>

definition zero_only :: "(topic \<times> jsval) list \<Rightarrow> bool" where
  "zero_only ps = list_all (\<lambda>p. snd p = twist_msg 0 0) ps"

text \<open>What one call \<open>publishTwist(linX, angZ)\<close> adds to the log in state \<open>s\<close>.\<close>

definition sent_now :: "app \<Rightarrow> real \<Rightarrow> real \<Rightarrow> (topic \<times> jsval) list" where
  "sent_now s linX angZ =
     (case cmdVelTopicRef s of None \<Rightarrow> [] | Some t \<Rightarrow> [(t, twist_msg linX angZ)])"

text \<open>While the connected flag is set there is a topic, a socket object and an interval.\<close>

definition conn_inv :: "app \<Rightarrow> bool" where
  "conn_inv s =
     (isConnected s \<longrightarrow> cmdVelTopicRef s \<noteq> None \<and> rosRef s \<noteq> None \<and> timerRef s = Some 50)"

definition axes_inv :: "app \<Rightarrow> bool" where
  "axes_inv s =
     (- 1 \<le> ax (axesRef s) \<and> ax (axesRef s) \<le> 1 \<and> - 1 \<le> ay (axesRef s) \<and> ay (axesRef s) \<le> 1)"

definition never_connected :: "app \<Rightarrow> bool" where
  "never_connected s = (\<not> isConnected s \<and> cmdVelTopicRef s = None \<and> published s = [])"

text \<open>Every topic name the state holds or has published on belongs to \<open>N\<close>.\<close>

definition name_ok :: "string set \<Rightarrow> app \<Rightarrow> bool" where
  "name_ok N s =
     (topicName s \<in> N
      \<and> (case rosRef s of None \<Rightarrow> True | Some r \<Rightarrow> cb_topicName r \<in> N)
      \<and> (case cmdVelTopicRef s of None \<Rightarrow> True | Some t \<Rightarrow> name t \<in> N)
      \<and> (\<forall>p \<in> set (published s). name (fst p) \<in> N))"

text \<open>The four corner buttons of the grid.\<close>

fun diagonal :: "dir \<Rightarrow> bool" where
  "diagonal UpLeft = True"
| "diagonal UpRight = True"
| "diagonal DownLeft = True"
| "diagonal DownRight = True"
| "diagonal d = False"

text \<open>The events whose handler and effects never write the axes reference.\<close>

fun keeps_axes :: "event \<Rightarrow> bool" where
  "keeps_axes Tick = True"
| "keeps_axes Timeout = True"
| "keeps_axes (ConnectClick ok) = True"
| "keeps_axes RosConnection = True"
| "keeps_axes (SetWsUrl u) = True"
| "keeps_axes (SetLinearMax v) = True"
| "keeps_axes (SetAngularMax v) = True"
| "keeps_axes SelectJoystick = True"
| "keeps_axes ToggleSettings = True"
| "keeps_axes e = False"

subsection \<open>Sessions\<close>

text \<open>
  A page served from host \<open>robot\<close>. \<open>driving\<close>: connected, joystick pushed forward and
  half right. \<open>stopped_online\<close>: connected, e-stop pressed, joystick moved afterwards.
  \<open>stopped_offline\<close>: the socket closed after connecting, then e-stop pressed.
  \<open>reversed\<close>: connected, the settings opened and \<open>-0.5\<close> typed into the linear gain,
  joystick untouched. \<open>offline_buttons\<close> and \<open>online_buttons\<close>: the button grid selected
  in the settings, never connected and connected.
\<close>

definition demo_topic :: topic where
  "demo_topic =
     \<lparr> topic_ros = \<lparr> url = ''ws://robot:9090'', cb_topicName = ''/cmd_vel'' \<rparr>,
       name = ''/cmd_vel'', messageType = ''geometry_msgs/Twist'' \<rparr>"

definition driving :: app where
  "driving = run (init ''robot'') [ConnectClick True, RosConnection, JoyMove 0.5 (- 2)]"

definition stopped_online :: app where
  "stopped_online =
     run (init ''robot'') [ConnectClick True, RosConnection, EstopClick, JoyMove 1 1]"

definition stopped_offline :: app where
  "stopped_offline =
     run (init ''robot'') [ConnectClick True, RosConnection, RosClose, EstopClick]"

definition reversed :: app where
  "reversed =
     run (init ''robot'') [ConnectClick True, RosConnection, ToggleSettings, SetLinearMax (- 0.5)]"

definition offline_buttons :: app where
  "offline_buttons = run (init ''robot'') [ToggleSettings, SelectButtons]"

definition online_buttons :: app where
  "online_buttons =
     run (init ''robot'') [ConnectClick True, RosConnection, ToggleSettings, SelectButtons]"

section \<open>Verification\<close>

subsection \<open>Unfolding, the event loop and the sessions\<close>

lemmas handler_defs = publishTwist_def safeStop_def disconnect_def connect_def on_connection_def
  on_close_def on_error_def on_move_def on_end_def tick_def topicName_effect_def onPointerDown_def
  onPointerUp_def onPointerLeave_def stop_click_def estop_click_def estop_release_click_def
  disconnect_click_def select_buttons_def timeout_fires_def

lemmas step_defs = step_def commit_def timer_deps_def

lemmas eval_defs = init_def guessWsUrl_def step_defs handler_defs Let_def clamp_def

lemmas js_defs = twist_msg_def twistTemplate_def vec3_def prop2_def get_prop_def prop_names_def

lemma run_snoc: "run s (es @ [e]) = step e (run s es)"
  by (induction es arbitrary: s) simp_all

lemma step_Tick: "step Tick s = (if timerRef s = None then s else tick s)"
  by (auto simp: step_defs handler_defs Let_def split: option.splits)

lemma driving_eval:
  "driving = \<lparr> wsUrl = ''ws://robot:9090'', topicName = ''/cmd_vel'', isConnected = True,
       statusText = Connected, errorText = [], linearMax = 0.6, angularMax = 1.2,
       estop = False, showSettings = False, controlMode = Joystick,
       rosRef = Some \<lparr> url = ''ws://robot:9090'', cb_topicName = ''/cmd_vel'' \<rparr>,
       cmdVelTopicRef = Some demo_topic, axesRef = \<lparr> ax = 0.5, ay = 1 \<rparr>,
       timerRef = Some 50, timeouts = [], published = [] \<rparr>"
  by (simp add: driving_def demo_topic_def eval_defs)

lemma stopped_online_eval:
  "stopped_online = \<lparr> wsUrl = ''ws://robot:9090'', topicName = ''/cmd_vel'', isConnected = True,
       statusText = Connected, errorText = [], linearMax = 0.6, angularMax = 1.2,
       estop = True, showSettings = False, controlMode = Joystick,
       rosRef = Some \<lparr> url = ''ws://robot:9090'', cb_topicName = ''/cmd_vel'' \<rparr>,
       cmdVelTopicRef = Some demo_topic, axesRef = \<lparr> ax = 1, ay = - 1 \<rparr>,
       timerRef = Some 50, timeouts = [80, 160], published = [(demo_topic, twist_msg 0 0)] \<rparr>"
  by (simp add: stopped_online_def demo_topic_def eval_defs)

lemma stopped_offline_eval:
  "stopped_offline = \<lparr> wsUrl = ''ws://robot:9090'', topicName = ''/cmd_vel'', isConnected = False,
       statusText = ConnectionClosed, errorText = [], linearMax = 0.6, angularMax = 1.2,
       estop = True, showSettings = False, controlMode = Joystick,
       rosRef = Some \<lparr> url = ''ws://robot:9090'', cb_topicName = ''/cmd_vel'' \<rparr>,
       cmdVelTopicRef = Some demo_topic, axesRef = \<lparr> ax = 0, ay = 0 \<rparr>,
       timerRef = Some 50, timeouts = [80, 160, 80, 160],
       published = [(demo_topic, twist_msg 0 0), (demo_topic, twist_msg 0 0)] \<rparr>"
  by (simp add: stopped_offline_def demo_topic_def eval_defs)

lemma reversed_eval:
  "reversed = \<lparr> wsUrl = ''ws://robot:9090'', topicName = ''/cmd_vel'', isConnected = True,
       statusText = Connected, errorText = [], linearMax = - 0.5, angularMax = 1.2,
       estop = False, showSettings = True, controlMode = Joystick,
       rosRef = Some \<lparr> url = ''ws://robot:9090'', cb_topicName = ''/cmd_vel'' \<rparr>,
       cmdVelTopicRef = Some demo_topic, axesRef = \<lparr> ax = 0, ay = 0 \<rparr>,
       timerRef = Some 50, timeouts = [], published = [] \<rparr>"
  by (simp add: reversed_def demo_topic_def eval_defs)

lemma offline_buttons_eval:
  "offline_buttons = \<lparr> wsUrl = ''ws://robot:9090'', topicName = ''/cmd_vel'',
       isConnected = False, statusText = NotConnected, errorText = [], linearMax = 0.6,
       angularMax = 1.2, estop = False, showSettings = True, controlMode = Buttons,
       rosRef = None, cmdVelTopicRef = None, axesRef = \<lparr> ax = 0, ay = 0 \<rparr>,
       timerRef = Some 50, timeouts = [80, 160], published = [] \<rparr>"
  by (simp add: offline_buttons_def eval_defs)

lemma online_buttons_eval:
  "online_buttons = \<lparr> wsUrl = ''ws://robot:9090'', topicName = ''/cmd_vel'', isConnected = True,
       statusText = Connected, errorText = [], linearMax = 0.6, angularMax = 1.2,
       estop = False, showSettings = True, controlMode = Buttons,
       rosRef = Some \<lparr> url = ''ws://robot:9090'', cb_topicName = ''/cmd_vel'' \<rparr>,
       cmdVelTopicRef = Some demo_topic, axesRef = \<lparr> ax = 0, ay = 0 \<rparr>,
       timerRef = Some 50, timeouts = [80, 160], published = [(demo_topic, twist_msg 0 0)] \<rparr>"
  by (simp add: online_buttons_def demo_topic_def eval_defs)

lemma driving_tick_published:
  "published (run (init ''robot'') [ConnectClick True, RosConnection, JoyMove 0.5 (- 2), Tick])
     = [(demo_topic, twist_msg 0.6 0.6)]"
proof -
  have "run (init ''robot'') [ConnectClick True, RosConnection, JoyMove 0.5 (- 2), Tick]
          = step Tick driving"
    unfolding driving_def by (simp only: run_snoc [symmetric] append.simps)
  then show ?thesis
    by (simp add: step_Tick tick_def publishTwist_def driving_eval clamp_def)
qed

subsection \<open>Messages\<close>

lemma twist_msg_fields:
  "prop2 (twist_msg a b) ''linear'' ''x'' = Some (Num a)"
  "prop2 (twist_msg a b) ''angular'' ''z'' = Some (Num b)"
  by (simp_all add: js_defs)

lemma twist_msg_is_twist: "is_twist (twist_msg a b)"
  by (simp add: is_twist_def is_vec3_def js_defs)

lemma twist_msg_side_fields: "side_fields_zero (twist_msg a b)"
  by (simp add: side_fields_zero_def js_defs)

subsection \<open>Invariants of every run\<close>

lemma msgs_inv_step: "msgs_inv s \<Longrightarrow> msgs_inv (step e s)"
  by (cases e)
     (auto simp: msgs_inv_def msg_ok_def twist_msg_is_twist twist_msg_side_fields
                 step_defs handler_defs Let_def
           split: option.splits list.splits)

lemma msgs_inv_run: "msgs_inv s \<Longrightarrow> msgs_inv (run s es)"
  by (induction es arbitrary: s) (simp_all add: msgs_inv_step)

lemma msgs_inv_init: "msgs_inv (init h)"
  by (simp add: msgs_inv_def init_def)

lemma conn_inv_step: "conn_inv s \<Longrightarrow> conn_inv (step e s)"
  by (cases e)
     (auto simp: conn_inv_def step_defs handler_defs Let_def split: option.splits list.splits)

lemma conn_inv_run: "conn_inv s \<Longrightarrow> conn_inv (run s es)"
  by (induction es arbitrary: s) (simp_all add: conn_inv_step)

lemma conn_inv_init: "conn_inv (init h)"
  by (simp add: conn_inv_def init_def)

lemma dir_axes_range:
  "- 1 \<le> ax (dir_axes d) \<and> ax (dir_axes d) \<le> 1 \<and> - 1 \<le> ay (dir_axes d) \<and> ay (dir_axes d) \<le> 1"
  by (cases d) simp_all

lemma axes_inv_step: "axes_inv s \<Longrightarrow> axes_inv (step e s)"
  using dir_axes_range
  by (cases e)
     (auto simp: axes_inv_def step_defs handler_defs clamp_def Let_def
           split: option.splits list.splits)

lemma axes_inv_run: "axes_inv s \<Longrightarrow> axes_inv (run s es)"
  by (induction es arbitrary: s) (simp_all add: axes_inv_step)

lemma axes_inv_init: "axes_inv (init h)"
  by (simp add: axes_inv_def init_def)

lemma never_connected_step:
  "never_connected s \<Longrightarrow> e \<noteq> RosConnection \<Longrightarrow> never_connected (step e s)"
  by (cases e)
     (auto simp: never_connected_def step_defs handler_defs Let_def
           split: option.splits list.splits)

lemma never_connected_run:
  "never_connected s \<Longrightarrow> RosConnection \<notin> set es \<Longrightarrow> never_connected (run s es)"
  by (induction es arbitrary: s) (auto simp: never_connected_step)

lemma never_connected_init: "never_connected (init h)"
  by (simp add: never_connected_def init_def)

lemma name_ok_step:
  "name_ok N s \<Longrightarrow> (\<forall>n. e = SetTopicName n \<longrightarrow> n \<in> N) \<Longrightarrow> name_ok N (step e s)"
  by (cases e)
     (auto simp: name_ok_def step_defs handler_defs Let_def
           split: option.splits list.splits)

lemma name_ok_run:
  "name_ok N s \<Longrightarrow> (\<forall>n. SetTopicName n \<in> set es \<longrightarrow> n \<in> N) \<Longrightarrow> name_ok N (run s es)"
proof (induction es arbitrary: s)
  case Nil
  then show ?case by simp
next
  case (Cons e es)
  have "name_ok N (step e s)"
    using Cons.prems by (intro name_ok_step) auto
  then show ?case
    using Cons.prems by (simp add: Cons.IH)
qed

text \<open>Under e-stop a step other than the release button keeps the flag and adds only
  zero twists to the log.\<close>

lemma estop_step_zero:
  "estop s \<Longrightarrow> e \<noteq> EstopReleaseClick \<Longrightarrow>
     estop (step e s) \<and> (\<exists>zs. published (step e s) = published s @ zs \<and> zero_only zs)"
  by (cases e)
     (auto simp: zero_only_def step_defs handler_defs Let_def split: option.splits list.splits)

lemma estop_run_zero:
  "estop s \<Longrightarrow> EstopReleaseClick \<notin> set es \<Longrightarrow>
     estop (run s es) \<and> (\<exists>zs. published (run s es) = published s @ zs \<and> zero_only zs)"
proof (induction es arbitrary: s)
  case Nil
  then show ?case by (simp add: zero_only_def)
next
  case (Cons e es)
  from Cons.prems have e: "e \<noteq> EstopReleaseClick" and es: "EstopReleaseClick \<notin> set es"
    by auto
  from estop_step_zero [OF Cons.prems(1) e]
  obtain zs where 1: "estop (step e s)" "published (step e s) = published s @ zs" "zero_only zs"
    by blast
  from Cons.IH [OF 1(1) es]
  obtain ws where 2: "estop (run (step e s) es)"
      "published (run (step e s) es) = published (step e s) @ ws" "zero_only ws"
    by blast
  have "published (run s (e # es)) = published s @ (zs @ ws)" "zero_only (zs @ ws)"
    using 1 2 by (simp_all add: zero_only_def)
  then show ?case using 2(1) by auto
qed

lemma keeps_axes_step: "keeps_axes e \<Longrightarrow> axesRef (step e s) = axesRef s"
  by (cases e)
     (auto simp: step_defs handler_defs Let_def split: option.splits list.splits)

lemma keeps_axes_run: "list_all keeps_axes es \<Longrightarrow> axesRef (run s es) = axesRef s"
  by (induction es arbitrary: s) (simp_all add: keeps_axes_step)

lemma scaled_in_range:
  fixes a g :: real
  assumes "- 1 \<le> a" "a \<le> 1" "0 \<le> g"
  shows "- g \<le> a * g \<and> a * g \<le> g"
proof -
  have "a * g \<le> 1 * g"
    using assms by (intro mult_right_mono) auto
  moreover have "(- 1) * g \<le> a * g"
    using assms by (intro mult_right_mono) auto
  ultimately show ?thesis by simp
qed

subsection \<open>The periodic loop\<close>

text \<open>
  After the socket closed, the topic object is still there but the connected flag is
  false: with e-stop set, a tick of the installed interval returns at the first guard
  and publishes nothing.
\<close>

theorem estop_tick_counterexample:
  "estop stopped_offline \<and> timerRef stopped_offline = Some 50 \<and> cmdVelTopicRef stopped_offline \<noteq> None
   \<and> published (step Tick stopped_offline) = published stopped_offline"
  by (simp add: step_Tick tick_def stopped_offline_eval)

text \<open>
  C1, with the connected flag made explicit. In every state the page can reach with
  the e-stop flag set: if the connected flag is true, the 50 ms interval is installed
  and its tick publishes exactly one message, the zero twist (\<open>linear.x = 0\<close>, \<open>angular.z = 0\<close>); if it is false, the tick
  changes nothing. What the tick publishes does not depend on the axes reference, and
  as long as the release button is not clicked the flag stays set and every message
  added to the log, by any handler, is the zero twist.
\<close>

theorem estop_tick_publishes_zero_when_connected:
  assumes "s = run (init h) evs" and "estop s"
  shows "(isConnected s \<longrightarrow>
            (\<exists>t. timerRef s = Some 50 \<and> cmdVelTopicRef s = Some t
               \<and> step Tick s = s\<lparr> published := published s @ [(t, twist_msg 0 0)] \<rparr>))
         \<and> (\<not> isConnected s \<longrightarrow> step Tick s = s)
         \<and> prop2 (twist_msg 0 0) ''linear'' ''x'' = Some (Num 0)
         \<and> prop2 (twist_msg 0 0) ''angular'' ''z'' = Some (Num 0)
         \<and> published (tick (s\<lparr> axesRef := a \<rparr>)) = published (tick s)
         \<and> (EstopReleaseClick \<notin> set es \<longrightarrow>
              estop (run s es)
              \<and> (\<exists>zs. published (run s es) = published s @ zs \<and> zero_only zs))"
proof -
  have "conn_inv s"
    unfolding assms(1) by (rule conn_inv_run [OF conn_inv_init])
  then have "isConnected s \<longrightarrow>
       (\<exists>t. timerRef s = Some 50 \<and> cmdVelTopicRef s = Some t
          \<and> step Tick s = s\<lparr> published := published s @ [(t, twist_msg 0 0)] \<rparr>)"
    using assms(2) by (auto simp: conn_inv_def step_Tick tick_def publishTwist_def)
  moreover have "\<not> isConnected s \<longrightarrow> step Tick s = s"
    by (simp add: step_Tick tick_def)
  moreover have "published (tick (s\<lparr> axesRef := a \<rparr>)) = published (tick s)"
    using assms(2) by (simp add: tick_def publishTwist_def split: option.splits)
  moreover note estop_run_zero [OF assms(2), of es] twist_msg_fields [of 0 0]
  ultimately show ?thesis by blast
qed

theorem estop_tick_publishes_zero_when_connected_witness:
  "(stopped_online = run (init ''robot'') [ConnectClick True, RosConnection, EstopClick, JoyMove 1 1]
    \<and> estop stopped_online \<and> isConnected stopped_online
    \<and> axesRef stopped_online = \<lparr> ax = 1, ay = - 1 \<rparr>
    \<and> step Tick stopped_online
        = stopped_online\<lparr> published := published stopped_online @ [(demo_topic, twist_msg 0 0)] \<rparr>
    \<and> EstopReleaseClick \<notin> set [Tick, JoyMove 0.3 0.4, Tick]
    \<and> (\<exists>zs. published (run stopped_online [Tick, JoyMove 0.3 0.4, Tick])
               = published stopped_online @ zs \<and> zero_only zs))
   \<and> (stopped_offline = run (init ''robot'') [ConnectClick True, RosConnection, RosClose, EstopClick]
      \<and> estop stopped_offline \<and> \<not> isConnected stopped_offline
      \<and> step Tick stopped_offline = stopped_offline)"
proof -
  have on: "stopped_online
      = run (init ''robot'') [ConnectClick True, RosConnection, EstopClick, JoyMove 1 1]"
    by (simp add: stopped_online_def)
  have off: "stopped_offline
      = run (init ''robot'') [ConnectClick True, RosConnection, RosClose, EstopClick]"
    by (simp add: stopped_offline_def)
  have e1: "estop stopped_online" and c1: "isConnected stopped_online"
    and a1: "axesRef stopped_online = \<lparr> ax = 1, ay = - 1 \<rparr>"
    and t1: "cmdVelTopicRef stopped_online = Some demo_topic"
    by (simp_all add: stopped_online_eval)
  have e2: "estop stopped_offline" and c2: "\<not> isConnected stopped_offline"
    by (simp_all add: stopped_offline_eval)
  have n: "EstopReleaseClick \<notin> set [Tick, JoyMove 0.3 0.4, Tick]"
    by simp
  show ?thesis
    using estop_tick_publishes_zero_when_connected
            [OF on e1, of "\<lparr> ax = 0, ay = 0 \<rparr>" "[Tick, JoyMove 0.3 0.4, Tick]"]
          estop_tick_publishes_zero_when_connected [OF off e2, of "\<lparr> ax = 0, ay = 0 \<rparr>" "[]"]
          on off e1 c1 a1 t1 e2 c2 n
    by auto
qed

text \<open>
  For gains that are not negative the tick does what the settings panel describes.
  In every state the page can reach with the connected flag true and the e-stop flag
  false, the 50 ms interval is installed and its tick publishes exactly one message on
  the current topic; its \<open>linear.x\<close> is \<open>clamp(y * linearMax, -linearMax, linearMax)\<close> and
  its \<open>angular.z\<close> is \<open>clamp(x * angularMax, -angularMax, angularMax)\<close> for the \<open>(x, y)\<close>
  of the axes reference. For a gain that is not negative the value is the scaled axis
  itself and lies between minus the gain and the gain.
\<close>

lemma tick_scaled_axes_for_nonnegative_gains:
  assumes "s = run (init h) evs" and "isConnected s" and "\<not> estop s"
  shows "\<exists>t m. timerRef s = Some 50 \<and> cmdVelTopicRef s = Some t
           \<and> step Tick s = s\<lparr> published := published s @ [(t, m)] \<rparr>
           \<and> prop2 m ''linear'' ''x''
               = Some (Num (clamp (ay (axesRef s) * linearMax s) (- linearMax s) (linearMax s)))
           \<and> prop2 m ''angular'' ''z''
               = Some (Num (clamp (ax (axesRef s) * angularMax s) (- angularMax s) (angularMax s)))
           \<and> (0 \<le> linearMax s \<longrightarrow>
                prop2 m ''linear'' ''x'' = Some (Num (ay (axesRef s) * linearMax s))
                \<and> - linearMax s \<le> ay (axesRef s) * linearMax s
                \<and> ay (axesRef s) * linearMax s \<le> linearMax s)
           \<and> (0 \<le> angularMax s \<longrightarrow>
                prop2 m ''angular'' ''z'' = Some (Num (ax (axesRef s) * angularMax s))
                \<and> - angularMax s \<le> ax (axesRef s) * angularMax s
                \<and> ax (axesRef s) * angularMax s \<le> angularMax s)"
proof -
  have "conn_inv s"
    unfolding assms(1) by (rule conn_inv_run [OF conn_inv_init])
  with assms(2) obtain t where t: "cmdVelTopicRef s = Some t" and timer: "timerRef s = Some 50"
    by (auto simp: conn_inv_def)
  have "axes_inv s"
    unfolding assms(1) by (rule axes_inv_run [OF axes_inv_init])
  then have range: "- 1 \<le> ax (axesRef s)" "ax (axesRef s) \<le> 1"
      "- 1 \<le> ay (axesRef s)" "ay (axesRef s) \<le> 1"
    by (simp_all add: axes_inv_def)
  let ?lin = "clamp (ay (axesRef s) * linearMax s) (- linearMax s) (linearMax s)"
  let ?ang = "clamp (ax (axesRef s) * angularMax s) (- angularMax s) (angularMax s)"
  have "step Tick s = s\<lparr> published := published s @ [(t, twist_msg ?lin ?ang)] \<rparr>"
    using t timer assms(2,3) by (simp add: step_Tick tick_def publishTwist_def Let_def)
  moreover have "0 \<le> linearMax s \<Longrightarrow> ?lin = ay (axesRef s) * linearMax s
      \<and> - linearMax s \<le> ay (axesRef s) * linearMax s
      \<and> ay (axesRef s) * linearMax s \<le> linearMax s"
    using scaled_in_range [OF range(3,4)] by (simp add: clamp_def)
  moreover have "0 \<le> angularMax s \<Longrightarrow> ?ang = ax (axesRef s) * angularMax s
      \<and> - angularMax s \<le> ax (axesRef s) * angularMax s
      \<and> ax (axesRef s) * angularMax s \<le> angularMax s"
    using scaled_in_range [OF range(1,2)] by (simp add: clamp_def)
  ultimately show ?thesis
    using t timer twist_msg_fields [of ?lin ?ang]
    by (intro exI [of _ t] exI [of _ "twist_msg ?lin ?ang"]) auto
qed

text \<open>
  C2 fails on the code for a negative gain, which the number inputs of the settings
  accept. In the session \<open>reversed\<close> the page is connected, not e-stopped, the linear
  gain is \<open>-0.5\<close> and the joystick is at rest, so the scaled axis is \<open>0\<close>; the tick
  publishes \<open>linear.x = -0.5\<close>. It publishes the same \<open>-0.5\<close> with the stick pushed
  fully forward and fully backward: \<open>clamp(v, 0.5, -0.5)\<close> is \<open>-0.5\<close> for every \<open>v\<close>. So the
  robot is driven while the stick is released, and right after the release handler
  has published the zero twist.
\<close>

theorem negative_gain_tick_publishes_gain:
  "reversed = run (init ''robot'') [ConnectClick True, RosConnection, ToggleSettings, SetLinearMax (- 0.5)]
   \<and> isConnected reversed \<and> \<not> estop reversed \<and> linearMax reversed = - 0.5
   \<and> axesRef reversed = \<lparr> ax = 0, ay = 0 \<rparr>
   \<and> ay (axesRef reversed) * linearMax reversed = 0
   \<and> step Tick reversed
       = reversed\<lparr> published := published reversed @ [(demo_topic, twist_msg (- 0.5) 0)] \<rparr>
   \<and> prop2 (twist_msg (- 0.5) 0) ''linear'' ''x'' = Some (Num (- 0.5))
   \<and> published (run reversed [JoyMove 0 (- 1), Tick]) = [(demo_topic, twist_msg (- 0.5) 0)]
   \<and> published (run reversed [JoyMove 0 1, Tick]) = [(demo_topic, twist_msg (- 0.5) 0)]
   \<and> published (run reversed [JoyMove 0 (- 1), JoyEnd, Tick])
       = [(demo_topic, twist_msg 0 0), (demo_topic, twist_msg (- 0.5) 0)]"
proof -
  have r: "reversed
      = run (init ''robot'') [ConnectClick True, RosConnection, ToggleSettings, SetLinearMax (- 0.5)]"
    by (simp add: reversed_def)
  have st: "isConnected reversed" "\<not> estop reversed" "linearMax reversed = - 0.5"
      "axesRef reversed = \<lparr> ax = 0, ay = 0 \<rparr>"
      "ay (axesRef reversed) * linearMax reversed = 0"
    by (simp_all add: reversed_eval)
  have tk: "step Tick reversed
       = reversed\<lparr> published := published reversed @ [(demo_topic, twist_msg (- 0.5) 0)] \<rparr>"
    by (simp add: step_Tick tick_def publishTwist_def clamp_def reversed_eval)
  have f: "prop2 (twist_msg (- 0.5) 0) ''linear'' ''x'' = Some (Num (- 0.5))"
    by (rule twist_msg_fields)
  have runs: "published (run reversed [JoyMove 0 (- 1), Tick]) = [(demo_topic, twist_msg (- 0.5) 0)]"
      "published (run reversed [JoyMove 0 1, Tick]) = [(demo_topic, twist_msg (- 0.5) 0)]"
      "published (run reversed [JoyMove 0 (- 1), JoyEnd, Tick])
         = [(demo_topic, twist_msg 0 0), (demo_topic, twist_msg (- 0.5) 0)]"
    by (simp_all add: reversed_eval step_defs handler_defs Let_def clamp_def)
  show ?thesis
    using r st tk f runs by (intro conjI) assumption+
qed

subsection \<open>The axes reference\<close>

text \<open>
  C3. A joystick move event carrying the vector \<open>(vx, vy)\<close> changes the state in one
  place only: the axes reference becomes \<open>(clamp(vx, -1, 1), -clamp(vy, -1, 1))\<close>, where
  the clamped value is \<open>-1\<close> below \<open>-1\<close>, \<open>1\<close> above \<open>1\<close> and the component itself in
  between. Nothing is published and no other transformation is applied.
\<close>

theorem joystick_move_sets_axes:
  "step (JoyMove vx vy) s =
     s\<lparr> axesRef := \<lparr> ax = (if vx < - 1 then - 1 else if 1 < vx then 1 else vx),
                       ay = - (if vy < - 1 then - 1 else if 1 < vy then 1 else vy) \<rparr> \<rparr>
   \<and> clamp vx (- 1) 1 = (if vx < - 1 then - 1 else if 1 < vx then 1 else vx)
   \<and> clamp vy (- 1) 1 = (if vy < - 1 then - 1 else if 1 < vy then 1 else vy)
   \<and> - 1 \<le> ax (axesRef (step (JoyMove vx vy) s)) \<and> ax (axesRef (step (JoyMove vx vy) s)) \<le> 1
   \<and> - 1 \<le> ay (axesRef (step (JoyMove vx vy) s)) \<and> ay (axesRef (step (JoyMove vx vy) s)) \<le> 1"
proof -
  have c: "clamp v (- 1) 1 = (if v < - 1 then - 1 else if 1 < v then 1 else v)" for v
    by (simp add: clamp_def min_def max_def)
  have "step (JoyMove vx vy) s =
     s\<lparr> axesRef := \<lparr> ax = clamp vx (- 1) 1, ay = - clamp vy (- 1) 1 \<rparr> \<rparr>"
    by (simp add: step_defs on_move_def Let_def)
  then show ?thesis
    by (simp add: c)
qed

theorem joystick_move_sets_axes_witness:
  "axesRef (step (JoyMove 0.5 (- 2)) driving) = \<lparr> ax = 0.5, ay = 1 \<rparr>
   \<and> axesRef (step (JoyMove 3 0.25) driving) = \<lparr> ax = 1, ay = - 0.25 \<rparr>
   \<and> axesRef (step (JoyMove (- 7) 4) driving) = \<lparr> ax = - 1, ay = - 1 \<rparr>
   \<and> published (step (JoyMove 3 0.25) driving) = published driving"
  using joystick_move_sets_axes [of "0.5" "- 2" driving]
        joystick_move_sets_axes [of 3 "0.25" driving]
        joystick_move_sets_axes [of "- 7" 4 driving]
  by simp

subsection \<open>The emergency stop button\<close>

text \<open>Pressed on the freshly mounted page, before any connection, the button sets the
  flag and publishes nothing: the topic reference is still null.\<close>

theorem estop_click_counterexample:
  "estop (step EstopClick (init ''robot'')) \<and> published (step EstopClick (init ''robot'')) = []"
  by (simp add: eval_defs)

text \<open>
  C4, with the guard of \<open>publishTwist\<close> made explicit. Pressing the emergency-stop
  button sets the e-stop flag, resets the axes reference to \<open>(0, 0)\<close>, publishes the
  zero twist at once if the topic reference is set (nothing while it is null), and
  schedules two further \<open>publishTwist(0, 0)\<close> calls at 80 ms and 160 ms; each of them,
  when it fires, again publishes the zero twist if the topic reference is set. From
  then on, whatever the joystick and the buttons do, the flag stays set and only zero
  twists are published until the release button is clicked.
\<close>

theorem estop_click_stops:
  "estop (step EstopClick s)
   \<and> axesRef (step EstopClick s) = \<lparr> ax = 0, ay = 0 \<rparr>
   \<and> published (step EstopClick s) = published s @ sent_now s 0 0
   \<and> timeouts (step EstopClick s) = timeouts s @ [80, 160]
   \<and> prop2 (twist_msg 0 0) ''linear'' ''x'' = Some (Num 0)
   \<and> prop2 (twist_msg 0 0) ''angular'' ''z'' = Some (Num 0)
   \<and> (timeouts s' = d # ds \<longrightarrow>
        published (step Timeout s') = published s' @ sent_now s' 0 0
        \<and> timeouts (step Timeout s') = ds)
   \<and> (EstopReleaseClick \<notin> set es \<longrightarrow>
        estop (run (step EstopClick s) es)
        \<and> (\<exists>zs. published (run (step EstopClick s) es) = published (step EstopClick s) @ zs
                \<and> zero_only zs))"
proof -
  have now: "estop (step EstopClick s)"
      "axesRef (step EstopClick s) = \<lparr> ax = 0, ay = 0 \<rparr>"
      "published (step EstopClick s) = published s @ sent_now s 0 0"
      "timeouts (step EstopClick s) = timeouts s @ [80, 160]"
    by (simp_all add: sent_now_def step_defs handler_defs Let_def split: option.splits)
  have later: "timeouts s' = d # ds \<longrightarrow>
        published (step Timeout s') = published s' @ sent_now s' 0 0
        \<and> timeouts (step Timeout s') = ds"
    by (simp add: sent_now_def step_defs handler_defs Let_def split: option.splits)
  show ?thesis
    using now later twist_msg_fields [of 0 0] estop_run_zero [OF now(1), of es]
    by simp
qed

theorem estop_click_stops_witness:
  "published (step EstopClick driving) = published driving @ [(demo_topic, twist_msg 0 0)]
   \<and> timeouts (step EstopClick driving) = [80, 160]
   \<and> published (step Timeout (step EstopClick driving))
       = published (step EstopClick driving) @ [(demo_topic, twist_msg 0 0)]
   \<and> timeouts (step Timeout (step EstopClick driving)) = [160]
   \<and> EstopReleaseClick \<notin> set [JoyMove 1 (- 1), Tick, PointerDown Up, Tick]
   \<and> (\<exists>zs. published (run (step EstopClick driving) [JoyMove 1 (- 1), Tick, PointerDown Up, Tick])
              = published (step EstopClick driving) @ zs \<and> zero_only zs)"
proof -
  note inst = estop_click_stops [of driving "step EstopClick driving" 80 "[160]"
                "[JoyMove 1 (- 1), Tick, PointerDown Up, Tick]"]
  have t: "cmdVelTopicRef driving = Some demo_topic" "timeouts driving = []"
    by (simp_all add: driving_eval)
  have t': "cmdVelTopicRef (step EstopClick driving) = Some demo_topic"
    by (simp add: driving_eval step_defs handler_defs Let_def)
  have n: "EstopReleaseClick \<notin> set [JoyMove 1 (- 1), Tick, PointerDown Up, Tick]"
    by simp
  have now: "published (step EstopClick driving) = published driving @ [(demo_topic, twist_msg 0 0)]"
      "timeouts (step EstopClick driving) = [80, 160]"
    using inst t by (simp_all add: sent_now_def)
  have later: "published (step Timeout (step EstopClick driving))
       = published (step EstopClick driving) @ [(demo_topic, twist_msg 0 0)]"
      "timeouts (step Timeout (step EstopClick driving)) = [160]"
    using inst now(2) t' by (simp_all add: sent_now_def)
  have after: "\<exists>zs. published (run (step EstopClick driving)
                                [JoyMove 1 (- 1), Tick, PointerDown Up, Tick])
              = published (step EstopClick driving) @ zs \<and> zero_only zs"
    using inst n by blast
  show ?thesis
    using now later n after by blast
qed

subsection \<open>The direction buttons\<close>

text \<open>
  With the button grid on screen and the page connected, the socket closes while the
  forward button is held: \<open>safeStop\<close> resets the axes although no pointer up or leave
  has come. And with the grid on screen before any connection, the release of a button
  publishes nothing.
\<close>

theorem button_hold_release_counterexample:
  "controlMode online_buttons = Buttons \<and> \<not> estop online_buttons
   \<and> axesRef (run online_buttons [PointerDown Up]) = \<lparr> ax = 0, ay = 1 \<rparr>
   \<and> axesRef (run online_buttons [PointerDown Up, RosClose]) = \<lparr> ax = 0, ay = 0 \<rparr>
   \<and> axesRef (run online_buttons [PointerDown Up, RosError ''lost'']) = \<lparr> ax = 0, ay = 0 \<rparr>
   \<and> controlMode offline_buttons = Buttons \<and> \<not> estop offline_buttons
   \<and> published (run offline_buttons [PointerDown Up, PointerUp Up]) = []
   \<and> published (run offline_buttons [PointerDown Up, PointerLeave Up]) = []"
  by (simp add: online_buttons_eval offline_buttons_eval step_defs handler_defs Let_def)

text \<open>
  C5, with the writers of the axes reference and the guard of \<open>publishTwist\<close> made
  explicit. Pointer down on a direction button stores that button's vector in the
  axes reference: a corner button has horizontal component \<open>\<plusminus>0.7\<close> and vertical
  component \<open>\<plusminus>1\<close>, the others have one component \<open>\<plusminus>1\<close> and the other \<open>0\<close>. The vector
  stays through ticks, timeouts and every other event that does not write the axes
  (connect click, connection, settings edits of URL and gains, settings toggle, mode
  switch to joystick). A socket close or error, the e-stop button and its release
  reset the axes to \<open>(0, 0)\<close> even while the button is down. Pointer up and pointer
  leave reset the axes to \<open>(0, 0)\<close> and publish the zero twist at once if the topic
  reference is set (nothing while it is null).
\<close>

theorem direction_buttons_hold_and_release:
  "axesRef (step (PointerDown d) s) = dir_axes d
   \<and> (if diagonal d then \<bar>ax (dir_axes d)\<bar> = 0.7 \<and> \<bar>ay (dir_axes d)\<bar> = 1
       else (\<bar>ax (dir_axes d)\<bar> = 1 \<and> ay (dir_axes d) = 0)
            \<or> (ax (dir_axes d) = 0 \<and> \<bar>ay (dir_axes d)\<bar> = 1))
   \<and> (list_all keeps_axes es \<longrightarrow> axesRef (run (step (PointerDown d) s) es) = dir_axes d)
   \<and> axesRef (step RosClose s) = \<lparr> ax = 0, ay = 0 \<rparr>
   \<and> axesRef (step (RosError err) s) = \<lparr> ax = 0, ay = 0 \<rparr>
   \<and> axesRef (step EstopClick s) = \<lparr> ax = 0, ay = 0 \<rparr>
   \<and> axesRef (step EstopReleaseClick s) = \<lparr> ax = 0, ay = 0 \<rparr>
   \<and> axesRef (step (PointerUp d) s) = \<lparr> ax = 0, ay = 0 \<rparr>
   \<and> published (step (PointerUp d) s) = published s @ sent_now s 0 0
   \<and> axesRef (step (PointerLeave d) s) = \<lparr> ax = 0, ay = 0 \<rparr>
   \<and> published (step (PointerLeave d) s) = published s @ sent_now s 0 0"
proof -
  have down: "axesRef (step (PointerDown d) s) = dir_axes d"
    by (simp add: step_defs onPointerDown_def Let_def)
  have shape: "if diagonal d then \<bar>ax (dir_axes d)\<bar> = 0.7 \<and> \<bar>ay (dir_axes d)\<bar> = 1
       else (\<bar>ax (dir_axes d)\<bar> = 1 \<and> ay (dir_axes d) = 0)
            \<or> (ax (dir_axes d) = 0 \<and> \<bar>ay (dir_axes d)\<bar> = 1)"
    by (cases d) simp_all
  have stop: "axesRef (step RosClose s) = \<lparr> ax = 0, ay = 0 \<rparr>"
      "axesRef (step (RosError err) s) = \<lparr> ax = 0, ay = 0 \<rparr>"
      "axesRef (step EstopClick s) = \<lparr> ax = 0, ay = 0 \<rparr>"
      "axesRef (step EstopReleaseClick s) = \<lparr> ax = 0, ay = 0 \<rparr>"
    by (simp_all add: step_defs handler_defs Let_def split: option.splits)
  have up: "axesRef (step (PointerUp d) s) = \<lparr> ax = 0, ay = 0 \<rparr>"
      "published (step (PointerUp d) s) = published s @ sent_now s 0 0"
      "axesRef (step (PointerLeave d) s) = \<lparr> ax = 0, ay = 0 \<rparr>"
      "published (step (PointerLeave d) s) = published s @ sent_now s 0 0"
    by (simp_all add: sent_now_def step_defs handler_defs Let_def split: option.splits)
  show ?thesis
    using down shape stop up keeps_axes_run [of es "step (PointerDown d) s"] by simp
qed

theorem direction_buttons_hold_and_release_witness:
  "controlMode online_buttons = Buttons
   \<and> list_all keeps_axes [Tick, Timeout, SetLinearMax 0.4, Tick]
   \<and> axesRef (run (step (PointerDown UpLeft) online_buttons) [Tick, Timeout, SetLinearMax 0.4, Tick])
       = \<lparr> ax = - 0.7, ay = 1 \<rparr>
   \<and> diagonal UpLeft
   \<and> published (step (PointerUp UpLeft) online_buttons)
       = published online_buttons @ [(demo_topic, twist_msg 0 0)]
   \<and> \<not> diagonal Down
   \<and> axesRef (step (PointerDown Down) online_buttons) = \<lparr> ax = 0, ay = - 1 \<rparr>"
proof -
  have t: "cmdVelTopicRef online_buttons = Some demo_topic" "controlMode online_buttons = Buttons"
    by (simp_all add: online_buttons_eval)
  show ?thesis
    using direction_buttons_hold_and_release
            [of UpLeft online_buttons "[Tick, Timeout, SetLinearMax 0.4, Tick]"]
          direction_buttons_hold_and_release [of Down online_buttons "[]"] t
    by (simp add: sent_now_def)
qed

subsection \<open>Topic and message format\<close>

text \<open>
  C6. The topic name of the mounted page is \<open>/cmd_vel\<close>. Every message the page ever
  publishes goes to a topic of message type \<open>geometry_msgs/Twist\<close> whose name is
  \<open>/cmd_vel\<close> unless the user has entered that other name in the settings, and it has
  exactly the properties \<open>linear\<close> and \<open>angular\<close>, each an object of the three numbers
  \<open>x\<close>, \<open>y\<close>, \<open>z\<close>.
\<close>

theorem published_on_cmd_vel_as_twist:
  "topicName (init h) = ''/cmd_vel''
   \<and> (\<forall>(t, m) \<in> set (published (run (init h) evs)).
        (name t = ''/cmd_vel'' \<or> SetTopicName (name t) \<in> set evs)
        \<and> messageType t = ''geometry_msgs/Twist''
        \<and> prop_names m = [''linear'', ''angular'']
        \<and> is_vec3 (get_prop m ''linear'') \<and> is_vec3 (get_prop m ''angular''))"
proof -
  let ?N = "insert ''/cmd_vel'' {n. SetTopicName n \<in> set evs}"
  have "name_ok ?N (init h)"
    by (simp add: name_ok_def init_def)
  then have "name_ok ?N (run (init h) evs)"
    by (rule name_ok_run) simp
  moreover have "msgs_inv (run (init h) evs)"
    by (rule msgs_inv_run [OF msgs_inv_init])
  ultimately show ?thesis
    by (auto simp: name_ok_def msgs_inv_def msg_ok_def is_twist_def list_all_iff init_def)
qed

theorem published_on_cmd_vel_as_twist_witness:
  "(demo_topic, twist_msg 0.6 0.6)
     \<in> set (published (run (init ''robot'')
              [ConnectClick True, RosConnection, JoyMove 0.5 (- 2), Tick]))
   \<and> name demo_topic = ''/cmd_vel''
   \<and> messageType demo_topic = ''geometry_msgs/Twist''
   \<and> prop_names (twist_msg 0.6 0.6) = [''linear'', ''angular'']
   \<and> is_vec3 (get_prop (twist_msg 0.6 0.6) ''linear'')
   \<and> is_vec3 (get_prop (twist_msg 0.6 0.6) ''angular'')"
proof -
  have "name demo_topic = ''/cmd_vel''"
    by (simp add: demo_topic_def)
  then show ?thesis
    using published_on_cmd_vel_as_twist
            [of "''robot''" "[ConnectClick True, RosConnection, JoyMove 0.5 (- 2), Tick]"]
          driving_tick_published
    by simp
qed

subsection \<open>The clamp\<close>

text \<open>
  C7. For every \<open>min \<le> max\<close>, \<open>clamp(v, min, max)\<close> lies in \<open>[min, max]\<close>, returns \<open>v\<close>
  unchanged whenever \<open>v\<close> already lies in \<open>[min, max]\<close>, and is idempotent.
\<close>

theorem clamp_within_fixed_idempotent:
  "mn \<le> mx \<Longrightarrow>
     (mn \<le> clamp v mn mx \<and> clamp v mn mx \<le> mx)
     \<and> (mn \<le> v \<and> v \<le> mx \<longrightarrow> clamp v mn mx = v)
     \<and> clamp (clamp v mn mx) mn mx = clamp v mn mx"
  by (auto simp: clamp_def)

theorem clamp_within_fixed_idempotent_witness:
  "(- 1 :: real) \<le> 1 \<and> (- 1 :: real) \<le> 0.5 \<and> (0.5 :: real) \<le> 1
   \<and> - 1 \<le> clamp 0.5 (- 1) 1 \<and> clamp 0.5 (- 1) 1 \<le> 1
   \<and> clamp 0.5 (- 1) 1 = 0.5
   \<and> clamp (clamp 0.5 (- 1) 1) (- 1) 1 = clamp 0.5 (- 1) 1"
  using clamp_within_fixed_idempotent [of "- 1" 1 "0.5"] by simp

subsection \<open>Only two fields carry a value\<close>

text \<open>
  C8. Every message the page ever publishes, whichever handler published it, has
  \<open>linear.y = linear.z = angular.x = angular.y = 0\<close>.
\<close>

theorem published_only_linear_x_angular_z:
  "\<forall>(t, m) \<in> set (published (run (init h) evs)).
     prop2 m ''linear'' ''y'' = Some (Num 0) \<and> prop2 m ''linear'' ''z'' = Some (Num 0)
     \<and> prop2 m ''angular'' ''x'' = Some (Num 0) \<and> prop2 m ''angular'' ''y'' = Some (Num 0)"
  using msgs_inv_run [OF msgs_inv_init, of h evs]
  by (auto simp: msgs_inv_def msg_ok_def side_fields_zero_def list_all_iff)

theorem published_only_linear_x_angular_z_witness:
  "(demo_topic, twist_msg 0.6 0.6)
     \<in> set (published (run (init ''robot'')
              [ConnectClick True, RosConnection, JoyMove 0.5 (- 2), Tick]))
   \<and> prop2 (twist_msg 0.6 0.6) ''linear'' ''x'' = Some (Num 0.6)
   \<and> prop2 (twist_msg 0.6 0.6) ''linear'' ''y'' = Some (Num 0)
   \<and> prop2 (twist_msg 0.6 0.6) ''linear'' ''z'' = Some (Num 0)
   \<and> prop2 (twist_msg 0.6 0.6) ''angular'' ''x'' = Some (Num 0)
   \<and> prop2 (twist_msg 0.6 0.6) ''angular'' ''y'' = Some (Num 0)
   \<and> prop2 (twist_msg 0.6 0.6) ''angular'' ''z'' = Some (Num 0.6)"
  using published_only_linear_x_angular_z
          [of "''robot''" "[ConnectClick True, RosConnection, JoyMove 0.5 (- 2), Tick]"]
        driving_tick_published twist_msg_fields [of "0.6" "0.6"]
  by simp

subsection \<open>Nothing leaves before a connection\<close>

text \<open>
  C9. \<open>publishTwist\<close> does nothing while the topic reference is null, the interval
  callback does nothing while the connected flag is false, and as long as no
  \<open>connection\<close> event of the socket has been handled the topic reference is null and
  the log of published messages is empty.
\<close>

theorem nothing_sent_before_connection:
  "(cmdVelTopicRef s = None \<longrightarrow> publishTwist linX angZ s = s)
   \<and> (\<not> isConnected s \<longrightarrow> tick s = s)
   \<and> (RosConnection \<notin> set evs \<longrightarrow>
        cmdVelTopicRef (run (init h) evs) = None \<and> published (run (init h) evs) = [])"
proof (intro conjI impI)
  assume "RosConnection \<notin> set evs"
  then have "never_connected (run (init h) evs)"
    by (rule never_connected_run [OF never_connected_init])
  then show "cmdVelTopicRef (run (init h) evs) = None" and "published (run (init h) evs) = []"
    by (simp_all add: never_connected_def)
qed (simp_all add: publishTwist_def tick_def)

theorem nothing_sent_before_connection_witness:
  "cmdVelTopicRef (init ''robot'') = None
   \<and> publishTwist 0.3 0.5 (init ''robot'') = init ''robot''
   \<and> \<not> isConnected (init ''robot'')
   \<and> tick (init ''robot'') = init ''robot''
   \<and> RosConnection \<notin> set [ConnectClick True, JoyMove 1 1, Tick, EstopClick, Timeout]
   \<and> published (run (init ''robot'')
        [ConnectClick True, JoyMove 1 1, Tick, EstopClick, Timeout]) = []"
  using nothing_sent_before_connection
    [of "init ''robot''" "0.3" "0.5"
        "[ConnectClick True, JoyMove 1 1, Tick, EstopClick, Timeout]" "''robot''"]
  by (simp add: init_def)

subsection \<open>The axes stay in the unit square\<close>


end
